theory Spec2Isabelle
  imports Complex_Main
begin

section \<open>Python text primitives\<close>

text \<open>
  Python \<open>str\<close> values are modelled as HOL strings. Text outside ASCII is written in
  UTF-8, one \<open>char\<close> per byte. \<open>str.strip()\<close> removes the ASCII characters for which
  \<open>str.isspace\<close> holds (tab, line feed, vertical tab, form feed, carriage return, the four
  separators 0x1C..0x1F and the blank); \<open>str.lower()\<close> folds the letters A..Z. Whitespace
  and letters beyond ASCII are not folded by this model.
\<close>

definition is_space :: "char \<Rightarrow> bool" where
  "is_space c = (c \<in> set [CHR 0x09, CHR 0x0A, CHR 0x0B, CHR 0x0C, CHR 0x0D,
                            CHR 0x1C, CHR 0x1D, CHR 0x1E, CHR 0x1F, CHR 0x20])"

definition strip :: "string \<Rightarrow> string" where
  "strip s = rev (dropWhile is_space (rev (dropWhile is_space s)))"




text \<open>The decimal digits of a natural number, as \<open>str(n)\<close> prints them.\<close>

fun str_nat :: "nat \<Rightarrow> string" where
  "str_nat n = (if n < 10 then [''0123456789'' ! n]
                else str_nat (n div 10) @ [''0123456789'' ! (n mod 10)])"

declare str_nat.simps [simp del]

text \<open>
  The format specification \<open>0wd\<close> of an f-string (\<open>f"{n:04d}"\<close>): the number is padded
  with zeros to width \<open>w\<close>, and the sign of a negative number counts in the width.
\<close>

definition format_0d :: "nat \<Rightarrow> int \<Rightarrow> string" where
  "format_0d w n =
     (if n < 0
      then CHR ''-'' # replicate (w - 1 - length (str_nat (nat (- n)))) CHR ''0''
             @ str_nat (nat (- n))
      else replicate (w - length (str_nat (nat n))) CHR ''0'' @ str_nat (nat n))"

section \<open>Errors\<close>

text \<open>
  Every exception the modelled code can raise is a value. \<open>DateOutOfRange\<close> is the
  \<open>ValueError\<close> of \<open>datetime.date\<close> for a year, month or day out of range;
  \<open>ValueError\<close> carries the message of the import; \<open>TypeError\<close> is the
  subscript of \<open>None\<close>. \<open>ComentarioObligatorio\<close> is the leader page's refusal of
  a rejection without a comment (\<open>st.error("El comentario es obligatorio.")\<close>):
  nothing is written.
\<close>

datatype error =
    IllegalMonthError int
  | DateOutOfRange
  | ValueError string
  | TypeError
  | ComentarioObligatorio

text \<open>A list of results is the list of the values, or the first error met.\<close>

fun all_ok :: "(error + 'a) list \<Rightarrow> error + 'a list" where
  "all_ok [] = Inr []"
| "all_ok (x # xs) =
     (case x of
        Inl e \<Rightarrow> Inl e
      | Inr v \<Rightarrow> (case all_ok xs of Inl e \<Rightarrow> Inl e | Inr vs \<Rightarrow> Inr (v # vs)))"

section \<open>Calendar (app.py, lines 38 to 49)\<close>

text \<open>
  \<open>calendar.isleap\<close>, \<open>calendar.mdays\<close> and the day count of
  \<open>calendar.monthrange(y, m)[1]\<close>, as the standard library defines them. The weekday
  that \<open>monthrange\<close> also returns is never read by the application.
\<close>

definition isleap :: "int \<Rightarrow> bool" where
  "isleap y = (y mod 4 = 0 \<and> (y mod 100 \<noteq> 0 \<or> y mod 400 = 0))"

definition mdays :: "int list" where
  "mdays = [0, 31, 28, 31, 30, 31, 30, 31, 31, 30, 31, 30, 31]"

definition monthrange :: "int \<Rightarrow> int \<Rightarrow> error + int" where
  "monthrange y m =
     (if \<not> (1 \<le> m \<and> m \<le> 12) then Inl (IllegalMonthError m)
      else Inr (mdays ! nat m + (if m = 2 \<and> isleap y then 1 else 0)))"

record date =
  year :: int
  month :: int
  day :: int

text \<open>\<open>datetime.date(y, m, d)\<close>: the constructor checks the three ranges.\<close>

definition mk_date :: "int \<Rightarrow> int \<Rightarrow> int \<Rightarrow> error + date" where
  "mk_date y m d =
     (if \<not> (1 \<le> y \<and> y \<le> 9999) then Inl DateOutOfRange
      else if \<not> (1 \<le> m \<and> m \<le> 12) then Inl DateOutOfRange
      else if \<not> (1 \<le> d \<and> d \<le> mdays ! nat m + (if m = 2 \<and> isleap y then 1 else 0))
        then Inl DateOutOfRange
      else Inr \<lparr>year = y, month = m, day = d\<rparr>)"

text \<open>\<open>date.isoformat()\<close>: \<open>YYYY-MM-DD\<close>.\<close>

definition isoformat :: "date \<Rightarrow> string" where
  "isoformat dt = format_0d 4 (year dt) @ ''-'' @ format_0d 2 (month dt) @ ''-''
                    @ format_0d 2 (day dt)"

definition yyyymm_from_year_month :: "int \<Rightarrow> int \<Rightarrow> string" where
  "yyyymm_from_year_month y m = format_0d 4 y @ format_0d 2 m"

definition month_bounds :: "int \<Rightarrow> int \<Rightarrow> error + (date \<times> date)" where
  "month_bounds y m =
     (case monthrange y m of
        Inl e \<Rightarrow> Inl e
      | Inr last_day \<Rightarrow>
          (case mk_date y m 1 of
             Inl e \<Rightarrow> Inl e
           | Inr start \<Rightarrow>
               (case mk_date y m last_day of
                  Inl e \<Rightarrow> Inl e
                | Inr end' \<Rightarrow> Inr (start, end'))))"

definition month_dates :: "int \<Rightarrow> int \<Rightarrow> error + date list" where
  "month_dates y m =
     (case month_bounds y m of
        Inl e \<Rightarrow> Inl e
      | Inr (start, end') \<Rightarrow> all_ok (map (\<lambda>d. mk_date y m d) [1..day end']))"

section \<open>The month grid (app.py, lines 34 and 93 to 101)\<close>

datatype tipo = T_G | T_F | T_D | T_HO | T_HV | T_HE

definition TIPOS_DIA :: "tipo list" where
  "TIPOS_DIA = [T_G, T_F, T_D, T_HO]"

text \<open>
  One row of the data frame: the date, the four check boxes, the two numbers of hours
  and the comment. Hours are \<open>real\<close>: the rounding of Python's floats is not modelled.
  A cell that the editor leaves without a value reads, in
  \<open>save_month_df_as_items\<close>, as \<open>False\<close>, \<open>0.0\<close> or \<open>""\<close>
  (\<open>bool(r.get(t, False))\<close>, \<open>... or 0.0\<close>, \<open>... or ""\<close>) and is that value here.
\<close>

record grid_row =
  Fecha :: string
  col_G :: bool
  col_F :: bool
  col_D :: bool
  col_HO :: bool
  col_HV :: real
  col_HE :: real
  Comentario :: string

definition build_month_df :: "int \<Rightarrow> int \<Rightarrow> error + grid_row list" where
  "build_month_df y m =
     (case month_dates y m of
        Inl e \<Rightarrow> Inl e
      | Inr dates \<Rightarrow>
          Inr (map (\<lambda>d. \<lparr>Fecha = isoformat d, col_G = False, col_F = False, col_D = False,
                          col_HO = False, col_HV = 0, col_HE = 0, Comentario = ''''\<rparr>) dates))"

section \<open>Daily items and the two projections (app.py, lines 104 to 173)\<close>

text \<open>
  A row of the table \<open>items\<close>. The column \<open>tipo\<close> is constrained by the schema to the
  six kinds. The surrogate key \<open>id\<close> is assigned by the store, never read by the
  modelled code, and left out.
\<close>

record item =
  legajo :: string
  fecha :: string
  tipo :: tipo
  valor_text :: "string option"
  valor_num :: "real option"
  comentario :: "string option"

definition get_flag :: "grid_row \<Rightarrow> tipo \<Rightarrow> bool" where
  "get_flag r t =
     (case t of T_G \<Rightarrow> col_G r | T_F \<Rightarrow> col_F r | T_D \<Rightarrow> col_D r | T_HO \<Rightarrow> col_HO r
      | _ \<Rightarrow> False)"






text \<open>
  The items that \<open>save_month_df_as_items\<close> builds for one row of the grid, and for the
  whole grid (lines 154 to 171).
\<close>

definition row_items :: "string \<Rightarrow> grid_row \<Rightarrow> item list" where
  "row_items leg r =
     (let f = Fecha r;
          c = (if strip (Comentario r) = '''' then None else Some (strip (Comentario r)))
      in map (\<lambda>t. \<lparr>legajo = leg, fecha = f, tipo = t, valor_text = Some ''1'',
                     valor_num = None, comentario = c\<rparr>)
             (filter (get_flag r) TIPOS_DIA)
         @ (if col_HV r > 0
            then [\<lparr>legajo = leg, fecha = f, tipo = T_HV, valor_text = None,
                   valor_num = Some (col_HV r), comentario = c\<rparr>]
            else [])
         @ (if col_HE r > 0
            then [\<lparr>legajo = leg, fecha = f, tipo = T_HE, valor_text = None,
                   valor_num = Some (col_HE r), comentario = c\<rparr>]
            else []))"

definition df_items :: "string \<Rightarrow> grid_row list \<Rightarrow> item list" where
  "df_items leg df = concat (map (row_items leg) df)"

section \<open>The store (db.py)\<close>

datatype estado = BORRADOR | ENVIADO | APROBADO | RECHAZADO

text \<open>A row of \<open>partes\<close>, without its surrogate key \<open>id\<close>.\<close>

record parte =
  p_legajo :: string
  periodo_yyyymm :: string
  estado :: estado
  submitted_at :: "string option"
  approved_at :: "string option"
  approved_by_legajo :: "string option"
  rejection_comment :: "string option"

text \<open>A row of \<open>personal\<close>, and a record of the import: the same eight keys.\<close>

record persona =
  per_legajo :: string
  cuil :: string
  nombre :: string
  leader_legajo :: string
  funcion :: "string option"
  origen :: "string option"
  lugar_trabajo :: "string option"
  extra_json :: "string option"

text \<open>The three tables, each in insertion order.\<close>

record db =
  personal :: "persona list"
  partes :: "parte list"
  items :: "item list"

subsection \<open>Items\<close>

definition delete_items_for_dates :: "db \<Rightarrow> string \<Rightarrow> string list \<Rightarrow> db" where
  "delete_items_for_dates s leg fechas_iso =
     (if fechas_iso = [] then s
      else s\<lparr>items := filter (\<lambda>it. \<not> (legajo it = strip leg \<and> fecha it \<in> set fechas_iso))
                          (items s)\<rparr>)"

text \<open>
  \<open>insert_items\<close> strips the three text keys of each item. On the six kinds of
  \<open>tipo\<close> stripping changes nothing.
\<close>

definition insert_items :: "db \<Rightarrow> item list \<Rightarrow> db" where
  "insert_items s its =
     (if its = [] then s
      else s\<lparr>items := items s
                 @ map (\<lambda>it. it\<lparr>legajo := strip (legajo it), fecha := strip (fecha it)\<rparr>) its\<rparr>)"

text \<open>The parameters \<open>y\<close> and \<open>m\<close> are not read by the source either.\<close>

definition save_month_df_as_items :: "db \<Rightarrow> string \<Rightarrow> int \<Rightarrow> int \<Rightarrow> grid_row list \<Rightarrow> db" where
  "save_month_df_as_items s leg y m df =
     insert_items (delete_items_for_dates s leg (map Fecha df)) (df_items leg df)"

subsection \<open>Partes\<close>

text \<open>
  \<open>INSERT ... ON CONFLICT (legajo, periodo_yyyymm) DO NOTHING\<close>, then the row is read
  back. \<open>fetchone()\<close> is the first row of the key, or nothing.
\<close>

definition parte_key :: "string \<Rightarrow> string \<Rightarrow> parte \<Rightarrow> bool" where
  "parte_key leg per r = (p_legajo r = leg \<and> periodo_yyyymm r = per)"

definition get_or_create_parte :: "db \<Rightarrow> string \<Rightarrow> string \<Rightarrow> db \<times> parte option" where
  "get_or_create_parte s leg per =
     (let l = strip leg;
          p = strip per;
          s1 = (if find (parte_key l p) (partes s) \<noteq> None then s
                else s\<lparr>partes := partes s
                            @ [\<lparr>p_legajo = l, periodo_yyyymm = p, estado = BORRADOR,
                                submitted_at = None, approved_at = None,
                                approved_by_legajo = None, rejection_comment = None\<rparr>]\<rparr>)
      in (s1, find (parte_key l p) (partes s1)))"

text \<open>\<open>COALESCE(?, column)\<close>: the argument when it is not null, else the stored value.\<close>

definition coalesce :: "'a option \<Rightarrow> 'a option \<Rightarrow> 'a option" where
  "coalesce a b = (case a of Some v \<Rightarrow> Some v | None \<Rightarrow> b)"

definition update_parte_estado ::
  "db \<Rightarrow> string \<Rightarrow> string \<Rightarrow> estado \<Rightarrow> string option \<Rightarrow> string option \<Rightarrow> string option
     \<Rightarrow> string option \<Rightarrow> db" where
  "update_parte_estado s leg per nuevo_estado sub_at app_at app_by rej =
     s\<lparr>partes :=
         map (\<lambda>r. if parte_key (strip leg) (strip per) r
                   then r\<lparr>estado := nuevo_estado,
                          submitted_at := coalesce sub_at (submitted_at r),
                          approved_at := coalesce app_at (approved_at r),
                          approved_by_legajo := coalesce app_by (approved_by_legajo r),
                          rejection_comment := rej\<rparr>
                   else r)
             (partes s)\<rparr>"

definition get_parte :: "db \<Rightarrow> string \<Rightarrow> string \<Rightarrow> parte option" where
  "get_parte s leg per = find (parte_key (strip leg) (strip per)) (partes s)"

subsection \<open>Personal\<close>




section \<open>The pages (app.py, lines 35, 176 and 294 to 454)\<close>

definition ESTADOS_EDITABLES :: "estado set" where
  "ESTADOS_EDITABLES = {BORRADOR, RECHAZADO}"

definition can_edit :: "estado \<Rightarrow> bool" where
  "can_edit e = (e \<in> ESTADOS_EDITABLES)"

text \<open>
  The two buttons of the employee's page (lines 349 to 359). \<open>now\<close> is the value of
  \<open>utcnow_str()\<close> at the click.
\<close>

definition guardar_borrador :: "db \<Rightarrow> string \<Rightarrow> int \<Rightarrow> int \<Rightarrow> grid_row list \<Rightarrow> db" where
  "guardar_borrador s leg y m edited =
     update_parte_estado (save_month_df_as_items s leg y m edited) leg
       (yyyymm_from_year_month y m) BORRADOR None None None None"

definition enviar_a_aprobacion ::
  "db \<Rightarrow> string \<Rightarrow> int \<Rightarrow> int \<Rightarrow> grid_row list \<Rightarrow> string \<Rightarrow> db" where
  "enviar_a_aprobacion s leg y m edited now =
     update_parte_estado (save_month_df_as_items s leg y m edited) leg
       (yyyymm_from_year_month y m) ENVIADO (Some now) None None None"

datatype boton = Guardar | Enviar

text \<open>
  \<open>page_empleado\<close> as far as it writes or raises, up to the click of one of its two
  buttons: the parte is read or created (line 305), the bounds of the month are computed
  (line 316, where a year or month out of range raises), and the click acts only when the
  state read is editable. The result is the store as the page leaves it, with the
  exception when one was raised: each function of db.py commits on its own, so what was
  written before an exception stays.
\<close>

definition page_empleado ::
  "db \<Rightarrow> string \<Rightarrow> int \<Rightarrow> int \<Rightarrow> grid_row list \<Rightarrow> boton \<Rightarrow> string \<Rightarrow> db \<times> error option" where
  "page_empleado s leg y m edited b now =
     (case get_or_create_parte s leg (yyyymm_from_year_month y m) of
        (s1, None) \<Rightarrow> (s1, Some TypeError)
      | (s1, Some parte) \<Rightarrow>
          (case month_bounds y m of
             Inl e \<Rightarrow> (s1, Some e)
           | Inr bounds \<Rightarrow>
               if can_edit (estado parte)
               then (case b of
                       Guardar \<Rightarrow> (guardar_borrador s1 leg y m edited, None)
                     | Enviar \<Rightarrow> (enviar_a_aprobacion s1 leg y m edited now, None))
               else (s1, None)))"

text \<open>The two decisions of the leader's page (lines 425 to 454).\<close>

definition aprobar :: "db \<Rightarrow> string \<Rightarrow> string \<Rightarrow> string \<Rightarrow> string \<Rightarrow> db" where
  "aprobar s legajo_sel periodo_sel user_legajo now =
     update_parte_estado s legajo_sel periodo_sel APROBADO None (Some now) (Some user_legajo)
       None"


text \<open>
  A trace of calls on the table \<open>partes\<close>: the two functions of db.py that write it,
  with their arguments.
\<close>

datatype parte_call =
    GetOrCreate string string
  | UpdateEstado string string estado "string option" "string option" "string option"
      "string option"

fun run_call :: "db \<Rightarrow> parte_call \<Rightarrow> db" where
  "run_call s (GetOrCreate leg per) = fst (get_or_create_parte s leg per)"
| "run_call s (UpdateEstado leg per e sub_at app_at app_by rej) =
     update_parte_estado s leg per e sub_at app_at app_by rej"

definition run_calls :: "db \<Rightarrow> parte_call list \<Rightarrow> db" where
  "run_calls s cs = foldl run_call s cs"

section \<open>The master import (excel_io.py, lines 8 to 87)\<close>






























section \<open>The empty month grid\<close>

lemma monthrange_ok:
  assumes "1 \<le> m" "m \<le> 12"
  shows "monthrange y m =
           Inr (if m = 2 then (if isleap y then 29 else 28)
                else if m \<in> {4, 6, 9, 11} then 30 else 31)"
proof -
  from assms have "m = 1 \<or> m = 2 \<or> m = 3 \<or> m = 4 \<or> m = 5 \<or> m = 6 \<or> m = 7 \<or> m = 8
                     \<or> m = 9 \<or> m = 10 \<or> m = 11 \<or> m = 12"
    by arith
  then show ?thesis
    by (auto simp: monthrange_def mdays_def)
qed

lemma all_ok_map_Inr:
  "(\<And>x. x \<in> set xs \<Longrightarrow> f x = Inr (g x)) \<Longrightarrow> all_ok (map f xs) = Inr (map g xs)"
  by (induction xs) auto

lemma mk_date_ok:
  "1 \<le> y \<Longrightarrow> y \<le> 9999 \<Longrightarrow> monthrange y m = Inr n \<Longrightarrow> 1 \<le> d \<Longrightarrow> d \<le> n
     \<Longrightarrow> mk_date y m d = Inr \<lparr>year = y, month = m, day = d\<rparr>"
  by (auto simp: mk_date_def monthrange_def split: if_splits)

lemma monthrange_ge_28:
  assumes "monthrange y m = Inr n"
  shows "28 \<le> n"
proof -
  from assms have b: "1 \<le> m" "m \<le> 12"
    by (auto simp: monthrange_def split: if_splits)
  show ?thesis
    using assms monthrange_ok [OF b, of y] by (auto split: if_splits)
qed

lemma month_dates_ok:
  assumes "1 \<le> y" "y \<le> 9999" "monthrange y m = Inr n"
  shows "month_dates y m = Inr (map (\<lambda>d. \<lparr>year = y, month = m, day = d\<rparr>) [1..n])"
proof -
  have n: "28 \<le> n"
    using assms(3) by (rule monthrange_ge_28)
  have first: "mk_date y m 1 = Inr \<lparr>year = y, month = m, day = 1\<rparr>"
    using mk_date_ok [OF assms, of 1] n by simp
  have last: "mk_date y m n = Inr \<lparr>year = y, month = m, day = n\<rparr>"
    using mk_date_ok [OF assms, of n] n by simp
  have "all_ok (map (\<lambda>d. mk_date y m d) [1..n])
          = Inr (map (\<lambda>d. \<lparr>year = y, month = m, day = d\<rparr>) [1..n])"
    by (rule all_ok_map_Inr) (simp add: mk_date_ok [OF assms])
  then show ?thesis
    by (simp add: month_dates_def month_bounds_def assms(3) first last)
qed

lemma build_month_df_ok:
  assumes "1 \<le> y" "y \<le> 9999" "monthrange y m = Inr n"
  shows "build_month_df y m =
           Inr (map (\<lambda>d. \<lparr>Fecha = isoformat \<lparr>year = y, month = m, day = d\<rparr>, col_G = False,
                           col_F = False, col_D = False, col_HO = False, col_HV = 0,
                           col_HE = 0, Comentario = ''''\<rparr>) [1..n])"
  by (simp add: build_month_df_def month_dates_ok [OF assms] comp_def)

text \<open>
  C6. For a year from 1 to 9999 and a month from 1 to 12, \<open>build_month_df\<close> returns a
  grid with one row per day of the month: 29 rows for February of a leap year, 28 for
  February otherwise, 30 for April, June, September and November, 31 for the other
  months. Every row has its four check boxes false, its two numbers zero and its comment
  empty, and the rows carry the ISO dates of the days 1, 2, ... in order.
\<close>

theorem build_month_df_rows:
  assumes "1 \<le> y" "y \<le> 9999" "1 \<le> m" "m \<le> 12"
  shows "\<exists>g. build_month_df y m = Inr g
           \<and> int (length g) =
               (if m = 2
                then (if y mod 4 = 0 \<and> (y mod 100 \<noteq> 0 \<or> y mod 400 = 0) then 29 else 28)
                else if m \<in> {4, 6, 9, 11} then 30 else 31)
           \<and> (\<forall>r \<in> set g. \<not> col_G r \<and> \<not> col_F r \<and> \<not> col_D r \<and> \<not> col_HO r
                  \<and> col_HV r = 0 \<and> col_HE r = 0 \<and> Comentario r = '''')
           \<and> map Fecha g
               = map (\<lambda>d. isoformat \<lparr>year = y, month = m, day = d\<rparr>) [1..int (length g)]"
proof -
  let ?n = "if m = 2 then (if isleap y then 29 else 28)
            else if m \<in> {4, 6, 9, 11} then 30 else (31::int)"
  have mr: "monthrange y m = Inr ?n"
    using monthrange_ok [OF assms(3,4)] by simp
  show ?thesis
    unfolding build_month_df_ok [OF assms(1,2) mr]
    by (auto simp: isleap_def comp_def)
qed

theorem build_month_df_rows_witness:
  "\<exists>g. build_month_df 2024 2 = Inr g \<and> length g = 29
         \<and> list_all (\<lambda>r. \<not> col_G r \<and> \<not> col_F r \<and> \<not> col_D r \<and> \<not> col_HO r
                          \<and> col_HV r = 0 \<and> col_HE r = 0 \<and> Comentario r = '''') g"
proof -
  have "(1::int) \<le> 2024" "(2024::int) \<le> 9999" "(1::int) \<le> 2" "(2::int) \<le> 12"
    by simp_all
  from build_month_df_rows [OF this] show ?thesis
    by (auto simp: list_all_iff)
qed

section \<open>The dates of a month grid\<close>

text \<open>
  The ISO dates of a month grid are made of digits and hyphens, so stripping leaves them
  as they are: the grids that the employee's page saves meet the condition on dates under
  which the frame of a save is stated.
\<close>

lemma dropWhile_none: "\<forall>c \<in> set xs. \<not> P c \<Longrightarrow> dropWhile P xs = xs"
  by (cases xs) simp_all

lemma strip_no_space:
  assumes "\<forall>c \<in> set s. \<not> is_space c"
  shows "strip s = s"
proof -
  have "dropWhile is_space s = s"
    using assms by (rule dropWhile_none)
  moreover have "dropWhile is_space (rev s) = rev s"
    by (rule dropWhile_none) (simp add: assms)
  ultimately show ?thesis
    by (simp add: strip_def)
qed

lemma str_nat_digits: "set (str_nat n) \<subseteq> set ''0123456789''"
proof (induction n rule: str_nat.induct)
  case (1 n)
  show ?case
  proof (cases "n < 10")
    case True
    then have "''0123456789'' ! n \<in> set ''0123456789''"
      by (intro nth_mem) simp
    then show ?thesis
      using True by (subst str_nat.simps) simp
  next
    case False
    have "''0123456789'' ! (n mod 10) \<in> set ''0123456789''"
      by (intro nth_mem) simp
    then show ?thesis
      using False 1 by (subst str_nat.simps) simp
  qed
qed

lemma format_0d_chars:
  assumes "CHR ''0'' \<in> D" and "CHR ''-'' \<in> D" and "\<And>k. set (str_nat k) \<subseteq> D"
  shows "set (format_0d w n) \<subseteq> D"
  using assms by (auto simp: format_0d_def)

lemma isoformat_chars: "set (isoformat d) \<subseteq> set ''0123456789-''"
proof -
  have z: "CHR ''0'' \<in> set ''0123456789-''" and h: "CHR ''-'' \<in> set ''0123456789-''"
    by simp_all
  have "set ''0123456789'' \<subseteq> set ''0123456789-''"
    by simp
  then have s: "set (str_nat k) \<subseteq> set ''0123456789-''" for k
    by (rule order_trans [OF str_nat_digits])
  have f: "set (format_0d w n) \<subseteq> set ''0123456789-''" for w n
    using z h s by (rule format_0d_chars)
  have "set (isoformat d) = set (format_0d 4 (year d)) \<union> {CHR ''-''}
          \<union> set (format_0d 2 (month d)) \<union> set (format_0d 2 (day d))"
    by (simp add: isoformat_def Un_commute Un_left_commute)
  then show ?thesis
    using f h by blast
qed

lemma isoformat_no_space: "\<forall>c \<in> set (isoformat d). \<not> is_space c"
proof -
  have "\<forall>c \<in> set ''0123456789-''. \<not> is_space c"
    by (simp add: is_space_def)
  then show ?thesis
    using isoformat_chars [of d] by blast
qed

lemma build_month_df_stripped:
  assumes "build_month_df y m = Inr g"
  shows "\<forall>r \<in> set g. strip (Fecha r) = Fecha r"
proof (cases "month_dates y m")
  case (Inl e)
  then show ?thesis
    using assms by (simp add: build_month_df_def)
next
  case (Inr ds)
  then have "map Fecha g = map isoformat ds"
    using assms by (auto simp: build_month_df_def)
  then have "set (map Fecha g) = set (map isoformat ds)"
    by simp
  then have "\<forall>r \<in> set g. \<exists>d. Fecha r = isoformat d"
    by auto
  then show ?thesis
    using strip_no_space [OF isoformat_no_space] by metis
qed

section \<open>The workflow of a parte\<close>



lemma find_map_keep:
  "(\<And>x. P (f x) = P x) \<Longrightarrow> find P (map f xs) = map_option f (find P xs)"
  by (induction xs) auto

lemma find_append_Some: "find P xs = Some p \<Longrightarrow> find P (xs @ ys) = Some p"
  by (induction xs) (auto split: if_splits)

lemma find_append_None: "find P xs = None \<Longrightarrow> find P (xs @ ys) = find P ys"
  by (induction xs) (auto split: if_splits)

lemma get_parte_update:
  "get_parte (update_parte_estado s leg per e sa aa ab rc) leg' per' =
     map_option (\<lambda>r. if parte_key (strip leg) (strip per) r
                   then r\<lparr>estado := e,
                          submitted_at := coalesce sa (submitted_at r),
                          approved_at := coalesce aa (approved_at r),
                          approved_by_legajo := coalesce ab (approved_by_legajo r),
                          rejection_comment := rc\<rparr>
                   else r) (get_parte s leg' per')"
  unfolding get_parte_def update_parte_estado_def
  by (simp add: find_map_keep parte_key_def)

lemma get_parte_key: "get_parte s leg per = Some p \<Longrightarrow> parte_key (strip leg) (strip per) p"
  unfolding get_parte_def by (auto simp: find_Some_iff)

lemma update_parte_estado_frame:
  "items (update_parte_estado s leg per e sa aa ab rc) = items s"
  "personal (update_parte_estado s leg per e sa aa ab rc) = personal s"
  by (simp_all add: update_parte_estado_def)



lemma parte_key_iff: "parte_key l p r \<longleftrightarrow> (p_legajo r, periodo_yyyymm r) = (l, p)"
  by (auto simp: parte_key_def)


lemma get_or_create_parte_cases:
  "get_or_create_parte s leg per =
     (case get_parte s leg per of
        Some p \<Rightarrow> (s, Some p)
      | None \<Rightarrow>
          (s\<lparr>partes := partes s
                 @ [\<lparr>p_legajo = strip leg, periodo_yyyymm = strip per, estado = BORRADOR,
                     submitted_at = None, approved_at = None, approved_by_legajo = None,
                     rejection_comment = None\<rparr>]\<rparr>,
           Some \<lparr>p_legajo = strip leg, periodo_yyyymm = strip per, estado = BORRADOR,
                 submitted_at = None, approved_at = None, approved_by_legajo = None,
                 rejection_comment = None\<rparr>))"
  by (auto simp: get_or_create_parte_def get_parte_def Let_def find_append_None parte_key_def
           split: option.splits)







lemma run_call_keeps:
  assumes "get_parte s leg per = Some p"
  shows "\<exists>p'. get_parte (run_call s c) leg per = Some p' \<and> ((submitted_at p \<noteq> None \<longrightarrow> submitted_at p' \<noteq> None)
            \<and> (approved_at p \<noteq> None \<longrightarrow> approved_at p' \<noteq> None)
            \<and> (approved_by_legajo p \<noteq> None \<longrightarrow> approved_by_legajo p' \<noteq> None))"
proof (cases c)
  case (GetOrCreate l q)
  have "get_parte (fst (get_or_create_parte s l q)) leg per = Some p"
    using assms
    by (cases "get_parte s l q") (simp_all add: get_or_create_parte_cases get_parte_def find_append_Some)
  then show ?thesis
    using GetOrCreate by auto
next
  case (UpdateEstado l q e sa aa ab rc)
  then show ?thesis
    using assms
    by (auto simp: get_parte_update coalesce_def split: option.splits)
qed

lemma run_calls_keeps:
  "get_parte s leg per = Some p
     \<Longrightarrow> \<exists>p'. get_parte (run_calls s cs) leg per = Some p' \<and> ((submitted_at p \<noteq> None \<longrightarrow> submitted_at p' \<noteq> None)
            \<and> (approved_at p \<noteq> None \<longrightarrow> approved_at p' \<noteq> None)
            \<and> (approved_by_legajo p \<noteq> None \<longrightarrow> approved_by_legajo p' \<noteq> None))"
proof (induction cs arbitrary: s p)
  case Nil
  then show ?case by (simp add: run_calls_def)
next
  case (Cons c cs)
  from run_call_keeps [OF Cons.prems, of c]
  obtain p1 where p1: "get_parte (run_call s c) leg per = Some p1" "submitted_at p \<noteq> None \<longrightarrow> submitted_at p1 \<noteq> None"
    "approved_at p \<noteq> None \<longrightarrow> approved_at p1 \<noteq> None"
    "approved_by_legajo p \<noteq> None \<longrightarrow> approved_by_legajo p1 \<noteq> None"
    by blast
  from Cons.IH [OF p1(1)]
  obtain p2 where p2: "get_parte (run_calls (run_call s c) cs) leg per = Some p2" "submitted_at p1 \<noteq> None \<longrightarrow> submitted_at p2 \<noteq> None"
    "approved_at p1 \<noteq> None \<longrightarrow> approved_at p2 \<noteq> None"
    "approved_by_legajo p1 \<noteq> None \<longrightarrow> approved_by_legajo p2 \<noteq> None"
    by blast
  show ?case
    using p1(2-) p2 by (auto simp: run_calls_def)
qed

text \<open>
  C9. An update of a parte replaces \<open>submitted_at\<close>, \<open>approved_at\<close> and
  \<open>approved_by_legajo\<close> only by an argument that is not null, a null argument keeping
  the stored value, and overwrites \<open>rejection_comment\<close> with the argument, null
  included. Hence, along every trace of later calls, a parte keeps each of the three
  fields set once it is set.
\<close>

theorem update_parte_estado_coalesce:
  assumes "get_parte s leg per = Some p"
  shows "get_parte (update_parte_estado s leg per e sa aa ab rc) leg per
           = Some (p\<lparr>estado := e,
                     submitted_at := (case sa of None \<Rightarrow> submitted_at p | Some v \<Rightarrow> Some v),
                     approved_at := (case aa of None \<Rightarrow> approved_at p | Some v \<Rightarrow> Some v),
                     approved_by_legajo :=
                       (case ab of None \<Rightarrow> approved_by_legajo p | Some v \<Rightarrow> Some v),
                     rejection_comment := rc\<rparr>)
       \<and> (\<exists>p'. get_parte (run_calls s cs) leg per = Some p'
              \<and> (submitted_at p \<noteq> None \<longrightarrow> submitted_at p' \<noteq> None)
              \<and> (approved_at p \<noteq> None \<longrightarrow> approved_at p' \<noteq> None)
              \<and> (approved_by_legajo p \<noteq> None \<longrightarrow> approved_by_legajo p' \<noteq> None))"
proof -
  have k: "parte_key (strip leg) (strip per) p"
    using assms by (rule get_parte_key)
  have 1: "get_parte (update_parte_estado s leg per e sa aa ab rc) leg per
           = Some (p\<lparr>estado := e,
                     submitted_at := (case sa of None \<Rightarrow> submitted_at p | Some v \<Rightarrow> Some v),
                     approved_at := (case aa of None \<Rightarrow> approved_at p | Some v \<Rightarrow> Some v),
                     approved_by_legajo :=
                       (case ab of None \<Rightarrow> approved_by_legajo p | Some v \<Rightarrow> Some v),
                     rejection_comment := rc\<rparr>)"
    by (simp add: get_parte_update assms k coalesce_def)
  from run_calls_keeps [OF assms, of cs] have 2:
    "\<exists>p'. get_parte (run_calls s cs) leg per = Some p'
              \<and> (submitted_at p \<noteq> None \<longrightarrow> submitted_at p' \<noteq> None)
              \<and> (approved_at p \<noteq> None \<longrightarrow> approved_at p' \<noteq> None)
              \<and> (approved_by_legajo p \<noteq> None \<longrightarrow> approved_by_legajo p' \<noteq> None)"
    by (simp add:)
  from 1 2 show ?thesis by (rule conjI)
qed

theorem update_parte_estado_coalesce_witness:
  "get_parte
     (update_parte_estado
        \<lparr>personal = [],
         partes = [\<lparr>p_legajo = ''5478'', periodo_yyyymm = ''202403'', estado = ENVIADO,
                    submitted_at = Some ''2024-04-01 10:00:00'', approved_at = None,
                    approved_by_legajo = None, rejection_comment = Some ''old''\<rparr>],
         items = []\<rparr>
        ''5478'' ''202403'' APROBADO None (Some ''2024-04-02 09:00:00'') (Some ''7001'') None)
     ''5478'' ''202403''
     = Some \<lparr>p_legajo = ''5478'', periodo_yyyymm = ''202403'', estado = APROBADO,
             submitted_at = Some ''2024-04-01 10:00:00'',
             approved_at = Some ''2024-04-02 09:00:00'', approved_by_legajo = Some ''7001'',
             rejection_comment = None\<rparr>
   \<and> (\<exists>p'. get_parte
              (run_calls
                 \<lparr>personal = [],
                  partes = [\<lparr>p_legajo = ''5478'', periodo_yyyymm = ''202403'',
                             estado = ENVIADO, submitted_at = Some ''2024-04-01 10:00:00'',
                             approved_at = None, approved_by_legajo = None,
                             rejection_comment = Some ''old''\<rparr>],
                  items = []\<rparr>
                 [UpdateEstado ''5478'' ''202403'' RECHAZADO None None (Some ''7001'')
                    (Some ''falta''),
                  UpdateEstado ''5478'' ''202403'' BORRADOR None None None None])
              ''5478'' ''202403'' = Some p'
            \<and> submitted_at p' \<noteq> None)"
proof -
  let ?p = "\<lparr>p_legajo = ''5478'', periodo_yyyymm = ''202403'', estado = ENVIADO,
             submitted_at = Some ''2024-04-01 10:00:00'', approved_at = None,
             approved_by_legajo = None, rejection_comment = Some ''old''\<rparr>"
  let ?s = "\<lparr>personal = [], partes = [?p], items = []\<rparr>"
  have a: "get_parte ?s ''5478'' ''202403'' = Some ?p"
    by (simp add: get_parte_def parte_key_def strip_def is_space_def)
  show ?thesis
    using update_parte_estado_coalesce
            [OF a, of APROBADO None "Some ''2024-04-02 09:00:00''" "Some ''7001''" None
               "[UpdateEstado ''5478'' ''202403'' RECHAZADO None None (Some ''7001'')
                   (Some ''falta''),
                 UpdateEstado ''5478'' ''202403'' BORRADOR None None None None]"]
    by auto
qed

section \<open>Saving a month grid\<close>

lemma get_or_create_parte_frame:
  "items (fst (get_or_create_parte s leg per)) = items s"
  "personal (fst (get_or_create_parte s leg per)) = personal s"
  by (simp_all add: get_or_create_parte_cases split: option.splits)

lemma save_month_df_as_items_items:
  "items (save_month_df_as_items s leg y m df)
     = filter (\<lambda>it. \<not> (legajo it = strip leg \<and> fecha it \<in> Fecha ` set df)) (items s)
       @ map (\<lambda>it. it\<lparr>legajo := strip (legajo it), fecha := strip (fecha it)\<rparr>)
           (df_items leg df)"
  by (cases "df = []")
     (simp_all add: save_month_df_as_items_def insert_items_def delete_items_for_dates_def
        df_items_def)

lemma save_month_df_as_items_frame:
  "partes (save_month_df_as_items s leg y m df) = partes s"
  "personal (save_month_df_as_items s leg y m df) = personal s"
  by (simp_all add: save_month_df_as_items_def insert_items_def delete_items_for_dates_def)

lemma get_parte_cong: "partes s' = partes s \<Longrightarrow> get_parte s' leg per = get_parte s leg per"
  by (simp add: get_parte_def)

lemma month_bounds_ok:
  assumes "1 \<le> y" "y \<le> 9999" "1 \<le> m" "m \<le> 12"
  shows "\<exists>bounds. month_bounds y m = Inr bounds"
proof -
  from monthrange_ok [OF assms(3,4), of y] obtain n where n: "monthrange y m = Inr n"
    by blast
  have "28 \<le> n"
    using n by (rule monthrange_ge_28)
  then show ?thesis
    using mk_date_ok [OF assms(1,2) n, of 1] mk_date_ok [OF assms(1,2) n, of n]
    by (simp add: month_bounds_def n)
qed

lemma page_empleado_editable:
  assumes "get_parte s leg (yyyymm_from_year_month y m) = Some p" "can_edit (estado p)"
    and "month_bounds y m = Inr bounds"
  shows "page_empleado s leg y m edited b now =
           (case b of Guardar \<Rightarrow> (guardar_borrador s leg y m edited, None)
                    | Enviar \<Rightarrow> (enviar_a_aprobacion s leg y m edited now, None))"
  using assms by (simp add: page_empleado_def get_or_create_parte_cases)

text \<open>
  C1, as the code has it. For a parte whose state is editable (BORRADOR or RECHAZADO) and a
  year and month that the two select boxes can give (1 to 9999, 1 to 12), the button
  "Guardar borrador" of the employee's page raises nothing, replaces the items of that employee on
  the dates of the grid by the items built from the grid, and then sets the state to
  BORRADOR and clears the rejection comment: from BORRADOR the state is unchanged, from
  RECHAZADO it becomes BORRADOR. The other fields of the parte and the table personal
  are unchanged.
\<close>

theorem guardar_borrador_sets_borrador:
  assumes "get_parte s leg (yyyymm_from_year_month y m) = Some p" and "can_edit (estado p)"
    and "1 \<le> y" "y \<le> 9999" "1 \<le> m" "m \<le> 12"
  shows "snd (page_empleado s leg y m edited Guardar now) = None
       \<and> get_parte (fst (page_empleado s leg y m edited Guardar now)) leg
             (yyyymm_from_year_month y m)
           = Some (p\<lparr>estado := BORRADOR, rejection_comment := None\<rparr>)
       \<and> items (fst (page_empleado s leg y m edited Guardar now))
           = filter (\<lambda>it. \<not> (legajo it = strip leg \<and> fecha it \<in> Fecha ` set edited)) (items s)
             @ map (\<lambda>it. it\<lparr>legajo := strip (legajo it), fecha := strip (fecha it)\<rparr>)
                 (df_items leg edited)
       \<and> personal (fst (page_empleado s leg y m edited Guardar now)) = personal s"
proof -
  let ?per = "yyyymm_from_year_month y m"
  let ?s1 = "save_month_df_as_items s leg y m edited"
  have k: "parte_key (strip leg) (strip ?per) p"
    using assms(1) by (rule get_parte_key)
  have g1: "get_parte ?s1 leg ?per = Some p"
    using assms(1) by (simp add: get_parte_cong [OF save_month_df_as_items_frame(1)])
  from month_bounds_ok [OF assms(3-6)] obtain bounds where "month_bounds y m = Inr bounds"
    by blast
  from page_empleado_editable [OF assms(1,2) this]
  have e: "page_empleado s leg y m edited Guardar now
             = (guardar_borrador s leg y m edited, None)"
    by simp
  have "get_parte (guardar_borrador s leg y m edited) leg ?per
          = Some (p\<lparr>estado := BORRADOR, rejection_comment := None\<rparr>)"
    by (simp add: guardar_borrador_def get_parte_update g1 k coalesce_def)
  moreover have "items (guardar_borrador s leg y m edited)
           = filter (\<lambda>it. \<not> (legajo it = strip leg \<and> fecha it \<in> Fecha ` set edited)) (items s)
             @ map (\<lambda>it. it\<lparr>legajo := strip (legajo it), fecha := strip (fecha it)\<rparr>)
                 (df_items leg edited)"
    by (simp add: guardar_borrador_def update_parte_estado_frame save_month_df_as_items_items)
  moreover have "personal (guardar_borrador s leg y m edited) = personal s"
    by (simp add: guardar_borrador_def update_parte_estado_frame save_month_df_as_items_frame)
  ultimately show ?thesis
    unfolding e by simp
qed

lemma yyyymm_202403: "yyyymm_from_year_month 2024 3 = ''202403''"
  by (simp add: yyyymm_from_year_month_def format_0d_def str_nat.simps)

theorem guardar_borrador_sets_borrador_witness:
  "get_parte
     (fst (page_empleado
        \<lparr>personal = [],
         partes = [\<lparr>p_legajo = ''5478'', periodo_yyyymm = ''202403'', estado = RECHAZADO,
                    submitted_at = Some ''2024-04-01 10:00:00'', approved_at = None,
                    approved_by_legajo = Some ''7001'', rejection_comment = Some ''falta''\<rparr>],
         items = [\<lparr>legajo = ''5478'', fecha = ''2024-03-01'', tipo = T_F, valor_text = Some ''1'',
                   valor_num = None, comentario = None\<rparr>,
                  \<lparr>legajo = ''5478'', fecha = ''2024-04-01'', tipo = T_G, valor_text = Some ''1'',
                   valor_num = None, comentario = None\<rparr>]\<rparr>
        ''5478'' 2024 3
        [\<lparr>Fecha = ''2024-03-01'', col_G = True, col_F = False, col_D = False, col_HO = False,
          col_HV = 2.5, col_HE = 0, Comentario = '' viaje ''\<rparr>]
        Guardar ''2024-04-03 08:00:00''))
     ''5478'' ''202403''
     = Some \<lparr>p_legajo = ''5478'', periodo_yyyymm = ''202403'', estado = BORRADOR,
             submitted_at = Some ''2024-04-01 10:00:00'', approved_at = None,
             approved_by_legajo = Some ''7001'', rejection_comment = None\<rparr>
   \<and> items
       (fst (page_empleado
        \<lparr>personal = [],
         partes = [\<lparr>p_legajo = ''5478'', periodo_yyyymm = ''202403'', estado = RECHAZADO,
                    submitted_at = Some ''2024-04-01 10:00:00'', approved_at = None,
                    approved_by_legajo = Some ''7001'', rejection_comment = Some ''falta''\<rparr>],
         items = [\<lparr>legajo = ''5478'', fecha = ''2024-03-01'', tipo = T_F, valor_text = Some ''1'',
                   valor_num = None, comentario = None\<rparr>,
                  \<lparr>legajo = ''5478'', fecha = ''2024-04-01'', tipo = T_G, valor_text = Some ''1'',
                   valor_num = None, comentario = None\<rparr>]\<rparr>
        ''5478'' 2024 3
        [\<lparr>Fecha = ''2024-03-01'', col_G = True, col_F = False, col_D = False, col_HO = False,
          col_HV = 2.5, col_HE = 0, Comentario = '' viaje ''\<rparr>]
        Guardar ''2024-04-03 08:00:00''))
     = [\<lparr>legajo = ''5478'', fecha = ''2024-04-01'', tipo = T_G, valor_text = Some ''1'',
         valor_num = None, comentario = None\<rparr>,
        \<lparr>legajo = ''5478'', fecha = ''2024-03-01'', tipo = T_G, valor_text = Some ''1'',
         valor_num = None, comentario = Some ''viaje''\<rparr>,
        \<lparr>legajo = ''5478'', fecha = ''2024-03-01'', tipo = T_HV, valor_text = None,
         valor_num = Some 2.5, comentario = Some ''viaje''\<rparr>]"
proof -
  let ?p = "\<lparr>p_legajo = ''5478'', periodo_yyyymm = ''202403'', estado = RECHAZADO,
             submitted_at = Some ''2024-04-01 10:00:00'', approved_at = None,
             approved_by_legajo = Some ''7001'', rejection_comment = Some ''falta''\<rparr>"
  let ?s = "\<lparr>personal = [], partes = [?p],
         items = [\<lparr>legajo = ''5478'', fecha = ''2024-03-01'', tipo = T_F, valor_text = Some ''1'',
                   valor_num = None, comentario = None\<rparr>,
                  \<lparr>legajo = ''5478'', fecha = ''2024-04-01'', tipo = T_G, valor_text = Some ''1'',
                   valor_num = None, comentario = None\<rparr>]\<rparr>"
  have a: "get_parte ?s ''5478'' (yyyymm_from_year_month 2024 3) = Some ?p"
    by (simp add: yyyymm_202403 get_parte_def parte_key_def strip_def is_space_def)
  have b: "can_edit (estado ?p)"
    by (simp add: can_edit_def ESTADOS_EDITABLES_def)
  have c: "strip ''5478'' = ''5478''" "strip ''2024-03-01'' = ''2024-03-01''"
    "strip '' viaje '' = ''viaje''"
    by (simp_all add: strip_def is_space_def)
  show ?thesis
    using guardar_borrador_sets_borrador [OF a b,
        of "[\<lparr>Fecha = ''2024-03-01'', col_G = True, col_F = False, col_D = False,
               col_HO = False, col_HV = 2.5, col_HE = 0, Comentario = '' viaje ''\<rparr>]"
           "''2024-04-03 08:00:00''"]
    by (simp add: yyyymm_202403 c df_items_def row_items_def TIPOS_DIA_def get_flag_def Let_def)
qed

text \<open>
  C1 as stated fails: the state RECHAZADO is editable, and saving from it leaves the
  parte in state BORRADOR, not RECHAZADO.
\<close>

theorem save_from_rechazado_counterexample:
  "can_edit RECHAZADO
   \<and> map estado (partes
        \<lparr>personal = [],
         partes = [\<lparr>p_legajo = ''5478'', periodo_yyyymm = ''202403'', estado = RECHAZADO,
                    submitted_at = Some ''2024-04-01 10:00:00'', approved_at = None,
                    approved_by_legajo = Some ''7001'', rejection_comment = Some ''falta''\<rparr>],
         items = []\<rparr>) = [RECHAZADO]
   \<and> map estado (partes
        (fst (page_empleado
           \<lparr>personal = [],
            partes = [\<lparr>p_legajo = ''5478'', periodo_yyyymm = ''202403'', estado = RECHAZADO,
                       submitted_at = Some ''2024-04-01 10:00:00'', approved_at = None,
                       approved_by_legajo = Some ''7001'', rejection_comment = Some ''falta''\<rparr>],
            items = []\<rparr>
           ''5478'' 2024 3
           [\<lparr>Fecha = ''2024-03-01'', col_G = True, col_F = False, col_D = False,
             col_HO = False, col_HV = 0, col_HE = 0, Comentario = ''''\<rparr>]
           Guardar ''2024-04-03 08:00:00''))) = [BORRADOR]"
  by (simp add: can_edit_def ESTADOS_EDITABLES_def page_empleado_def get_or_create_parte_def
        guardar_borrador_def update_parte_estado_def save_month_df_as_items_def
        insert_items_def delete_items_for_dates_def yyyymm_202403 parte_key_def strip_def
        is_space_def coalesce_def df_items_def row_items_def TIPOS_DIA_def get_flag_def
        Let_def month_bounds_def monthrange_def mk_date_def mdays_def isleap_def)

lemma filter_frame:
  assumes "\<And>x. Q x \<Longrightarrow> keep x" "\<And>x. x \<in> set new \<Longrightarrow> \<not> Q x"
  shows "filter Q (filter keep old @ new) = filter Q old"
proof -
  have "filter Q new = []" using assms(2) by (simp add: filter_empty_conv)
  moreover have "filter Q (filter keep old) = filter Q old"
    using assms(1) by (auto intro: filter_cong)
  ultimately show ?thesis by simp
qed

lemma row_items_keys:
  "it \<in> set (row_items leg r) \<Longrightarrow> legajo it = leg \<and> fecha it = Fecha r"
  by (auto simp: row_items_def Let_def split: if_splits)

lemma df_items_keys:
  "it \<in> set (df_items leg df) \<Longrightarrow> legajo it = leg \<and> fecha it \<in> Fecha ` set df"
  by (auto simp: df_items_def dest: row_items_keys)

lemma save_month_df_as_items_outside:
  assumes "\<forall>r \<in> set df. strip (Fecha r) = Fecha r"
    and "\<And>it. Q it \<Longrightarrow> \<not> (legajo it = strip leg \<and> fecha it \<in> Fecha ` set df)"
  shows "filter Q (items (save_month_df_as_items s leg y m df)) = filter Q (items s)"
  unfolding save_month_df_as_items_items
proof (rule filter_frame)
  fix x
  assume "x \<in> set (map (\<lambda>it. it\<lparr>legajo := strip (legajo it), fecha := strip (fecha it)\<rparr>)
                      (df_items leg df))"
  then obtain it where it: "it \<in> set (df_items leg df)"
      "x = it\<lparr>legajo := strip (legajo it), fecha := strip (fecha it)\<rparr>"
    by auto
  from df_items_keys [OF it(1)] obtain r where r: "legajo it = leg" "r \<in> set df" "fecha it = Fecha r"
    by auto
  with assms(1) have "strip (fecha it) = Fecha r" by simp
  then have "legajo x = strip leg \<and> fecha x \<in> Fecha ` set df"
    using it(2) r by simp
  then show "\<not> Q x"
    using assms(2) by blast
qed (rule assms(2))

lemma page_empleado_items:
  "items (fst (page_empleado s leg y m edited b now)) = items s
   \<or> items (fst (page_empleado s leg y m edited b now))
       = items (save_month_df_as_items s leg y m edited)"
  by (cases "get_parte s leg (yyyymm_from_year_month y m)"; cases b; cases "month_bounds y m")
     (auto simp: page_empleado_def get_or_create_parte_cases guardar_borrador_def
        enviar_a_aprobacion_def update_parte_estado_frame save_month_df_as_items_def
        insert_items_def delete_items_for_dates_def)

text \<open>
  C10. For a grid whose dates carry no white space around them (as the ISO dates of a
  month grid), a click on either button of the employee's page, and
  \<open>save_month_df_as_items\<close> itself, leave unchanged the items of every other
  employee and the items of the same employee on dates that are not in the grid: only
  items of that employee on the dates of the grid are deleted or inserted.
\<close>

theorem save_leaves_other_items:
  assumes "\<forall>r \<in> set edited. strip (Fecha r) = Fecha r"
  shows "filter (\<lambda>it. legajo it \<noteq> strip leg) (items (fst (page_empleado s leg y m edited b now)))
           = filter (\<lambda>it. legajo it \<noteq> strip leg) (items s)
       \<and> filter (\<lambda>it. legajo it = strip leg \<and> fecha it \<notin> Fecha ` set edited)
             (items (fst (page_empleado s leg y m edited b now)))
           = filter (\<lambda>it. legajo it = strip leg \<and> fecha it \<notin> Fecha ` set edited) (items s)
       \<and> filter (\<lambda>it. legajo it \<noteq> strip leg) (items (save_month_df_as_items s leg y m edited))
           = filter (\<lambda>it. legajo it \<noteq> strip leg) (items s)
       \<and> filter (\<lambda>it. legajo it = strip leg \<and> fecha it \<notin> Fecha ` set edited)
             (items (save_month_df_as_items s leg y m edited))
           = filter (\<lambda>it. legajo it = strip leg \<and> fecha it \<notin> Fecha ` set edited) (items s)"
proof -
  have 1: "filter (\<lambda>it. legajo it \<noteq> strip leg) (items (save_month_df_as_items s leg y m edited))
           = filter (\<lambda>it. legajo it \<noteq> strip leg) (items s)"
    by (rule save_month_df_as_items_outside [OF assms]) simp
  have 2: "filter (\<lambda>it. legajo it = strip leg \<and> fecha it \<notin> Fecha ` set edited)
             (items (save_month_df_as_items s leg y m edited))
           = filter (\<lambda>it. legajo it = strip leg \<and> fecha it \<notin> Fecha ` set edited) (items s)"
    by (rule save_month_df_as_items_outside [OF assms]) simp
  from page_empleado_items [of s leg y m edited b now] 1 2 show ?thesis
    by auto
qed

theorem save_leaves_other_items_witness:
  "filter (\<lambda>it. legajo it \<noteq> ''5478'')
     (items
        (fst (page_empleado
           \<lparr>personal = [],
            partes = [],
            items = [\<lparr>legajo = ''5478'', fecha = ''2024-03-01'', tipo = T_F,
                      valor_text = Some ''1'', valor_num = None, comentario = None\<rparr>,
                     \<lparr>legajo = ''6001'', fecha = ''2024-03-01'', tipo = T_D,
                      valor_text = Some ''1'', valor_num = None, comentario = None\<rparr>,
                     \<lparr>legajo = ''5478'', fecha = ''2024-04-01'', tipo = T_G,
                      valor_text = Some ''1'', valor_num = None, comentario = None\<rparr>]\<rparr>
           ''5478 '' 2024 3
           [\<lparr>Fecha = ''2024-03-01'', col_G = True, col_F = False, col_D = False,
             col_HO = False, col_HV = 0, col_HE = 1, Comentario = ''''\<rparr>]
           Enviar ''2024-04-03 08:00:00'')))
     = [\<lparr>legajo = ''6001'', fecha = ''2024-03-01'', tipo = T_D, valor_text = Some ''1'',
         valor_num = None, comentario = None\<rparr>]
   \<and> filter (\<lambda>it. legajo it = ''5478'' \<and> fecha it \<noteq> ''2024-03-01'')
       (items
          (fst (page_empleado
             \<lparr>personal = [],
              partes = [],
              items = [\<lparr>legajo = ''5478'', fecha = ''2024-03-01'', tipo = T_F,
                        valor_text = Some ''1'', valor_num = None, comentario = None\<rparr>,
                       \<lparr>legajo = ''6001'', fecha = ''2024-03-01'', tipo = T_D,
                        valor_text = Some ''1'', valor_num = None, comentario = None\<rparr>,
                       \<lparr>legajo = ''5478'', fecha = ''2024-04-01'', tipo = T_G,
                        valor_text = Some ''1'', valor_num = None, comentario = None\<rparr>]\<rparr>
             ''5478 '' 2024 3
             [\<lparr>Fecha = ''2024-03-01'', col_G = True, col_F = False, col_D = False,
               col_HO = False, col_HV = 0, col_HE = 1, Comentario = ''''\<rparr>]
             Enviar ''2024-04-03 08:00:00'')))
     = [\<lparr>legajo = ''5478'', fecha = ''2024-04-01'', tipo = T_G, valor_text = Some ''1'',
         valor_num = None, comentario = None\<rparr>]"
proof -
  have c: "strip ''5478 '' = ''5478''" "strip ''2024-03-01'' = ''2024-03-01''"
    by (simp_all add: strip_def is_space_def)
  have h: "\<forall>r \<in> set [\<lparr>Fecha = ''2024-03-01'', col_G = True, col_F = False, col_D = False,
                          col_HO = False, col_HV = 0, col_HE = 1, Comentario = ''''\<rparr>].
             strip (Fecha r) = Fecha r"
    by (simp add: c)
  show ?thesis
    using save_leaves_other_items
            [OF h, where leg = "''5478 ''" and y = 2024 and m = 3 and b = Enviar
               and now = "''2024-04-03 08:00:00''"
               and s = "\<lparr>personal = [], partes = [],
                  items = [\<lparr>legajo = ''5478'', fecha = ''2024-03-01'', tipo = T_F,
                            valor_text = Some ''1'', valor_num = None, comentario = None\<rparr>,
                           \<lparr>legajo = ''6001'', fecha = ''2024-03-01'', tipo = T_D,
                            valor_text = Some ''1'', valor_num = None, comentario = None\<rparr>,
                           \<lparr>legajo = ''5478'', fecha = ''2024-04-01'', tipo = T_G,
                            valor_text = Some ''1'', valor_num = None, comentario = None\<rparr>]\<rparr>"]
    by (simp add: c)
qed

section \<open>The upsert of personal\<close>







section \<open>The master import\<close>





















section \<open>The round trip between items and grid\<close>




























end
